theory Spec2Isabelle
  imports Main "HOL-Library.Word"
begin

unbundle bit_operations_syntax

section \<open>Machine integers, statuses and faults\<close>

type_synonym u8 = "8 word"
type_synonym u16 = "16 word"
type_synonym u32 = "32 word"
type_synonym u64 = "64 word"

text \<open>
  The values of \<open>mx_status_t\<close> that \<open>virtio.cpp\<close> names, and one constructor for
  every other value a callback may hand back.
\<close>

datatype mx_status =
    MX_OK
  | MX_ERR_NOT_SUPPORTED
  | MX_ERR_IO_DATA_INTEGRITY
  | MX_ERR_INVALID_ARGS
  | MX_ERR_OUT_OF_RANGE
  | MX_ERR_NOT_FOUND
  | MX_ERR_NEXT
  | MX_ERR_STOP
  | MX_ERR_INTERNAL
  | MX_ERR_OTHER int

text \<open>
  Undefined behaviour of the C++ code is a value of its own: a function of the model
  returns \<open>Inl\<close> of a fault where the source dereferences a null pointer, takes a
  remainder by zero, indexes the queue array outside of it or reads a local that was
  never written, and \<open>Inr\<close> of its result otherwise.
\<close>

datatype fault = NullDeref | DivByZero | BadQueuePointer | UninitialisedRead

section \<open>Host memory\<close>

text \<open>
  The host address space as bytes; the rings live in it at the host virtual addresses
  the queue's pointers hold. Loads and stores are little-endian, as on the x86-64 host.
\<close>

type_synonym memory = "u64 \<Rightarrow> u8"

definition load16 :: "memory \<Rightarrow> u64 \<Rightarrow> u16" where
  "load16 m a = ucast (m a) OR push_bit 8 (ucast (m (a + 1)))"

definition load32 :: "memory \<Rightarrow> u64 \<Rightarrow> u32" where
  "load32 m a = ucast (load16 m a) OR push_bit 16 (ucast (load16 m (a + 2)))"

definition load64 :: "memory \<Rightarrow> u64 \<Rightarrow> u64" where
  "load64 m a = ucast (load32 m a) OR push_bit 32 (ucast (load32 m (a + 4)))"

definition store16 :: "memory \<Rightarrow> u64 \<Rightarrow> u16 \<Rightarrow> memory" where
  "store16 m a v = m(a := ucast v, a + 1 := ucast (drop_bit 8 v))"

definition store32 :: "memory \<Rightarrow> u64 \<Rightarrow> u32 \<Rightarrow> memory" where
  "store32 m a v = store16 (store16 m a (ucast v)) (a + 2) (ucast (drop_bit 16 v))"

section \<open>The data model of \<open>hypervisor/virtio.h\<close>\<close>

text \<open>
  The model holds one device. A queue's \<open>virtio_device\<close> field is the pointer to the
  owning device: either null or that device.
\<close>

datatype device_ptr = NULL_device | Owning_device

text \<open>
  Modelled from the spec: \<open>hypervisor/virtio.h\<close>, which declares
  \<open>virtio_queue_t\<close> and \<open>virtio_device_t\<close>, is not among the sources. The fields
  are those \<open>virtio.cpp\<close> uses, with the widths its uses and the data model of the
  specification give them: a 32-bit page frame number, a capacity that the 16-bit
  \<open>QUEUE_SIZE\<close> register reads and writes, a 16-bit cursor, and pointers. The ring
  pointers are host virtual addresses, 0 for \<open>NULL\<close>. The mutex and the condition
  variable are left out: the model is sequential. The field \<open>size\<close> is \<open>qsize\<close>
  here.
\<close>

record virtio_queue =
  pfn :: u32
  qsize :: u32
  index :: u16
  virtio_device :: device_ptr
  desc :: u64
  avail :: u64
  used_event :: u64
  used :: u64
  avail_event :: u64

record virtio_device =
  features :: u32
  status :: u8
  isr_status :: u8
  queue_sel :: u16
  num_queues :: u16
  queues :: "virtio_queue list"
  guest_physmem_addr :: u64
  guest_physmem_size :: u64

text \<open>
  What the transport does to the outside, in order: the device's notify callback, the
  condition variable of a queue, the interrupt line, the handler of a descriptor, and
  the write of a used-ring entry.
\<close>

datatype event =
    QueueNotifyCall u16
  | CndSignal nat
  | PciInterrupt
  | HandlerCall u64 u32 u16
  | UsedRingWrite nat u16 u32

record vm_state =
  device :: virtio_device
  mem :: memory
  trace :: "event list"

text \<open>The queue struct after \<open>memset(queue, 0, sizeof(*queue))\<close>.\<close>

definition zero_queue :: virtio_queue where
  "zero_queue = \<lparr>pfn = 0, qsize = 0, index = 0, virtio_device = NULL_device,
     desc = 0, avail = 0, used_event = 0, used = 0, avail_event = 0\<rparr>"

text \<open>
  A \<open>virtio_queue_t*\<close> argument is the position of the queue in the device's array.
\<close>

definition queue_ref :: "vm_state \<Rightarrow> nat \<Rightarrow> fault + virtio_queue" where
  "queue_ref s qi =
     (if qi < length (queues (device s)) then Inr (queues (device s) ! qi)
      else Inl BadQueuePointer)"

definition put_queue :: "vm_state \<Rightarrow> nat \<Rightarrow> virtio_queue \<Rightarrow> vm_state" where
  "put_queue s qi q = s\<lparr>device := (device s)\<lparr>queues := (queues (device s))[qi := q]\<rparr>\<rparr>"

section \<open>Ring layout\<close>

text \<open>
  Modelled from the spec: the headers \<open>limits.h\<close> and \<open>virtio/virtio_ring.h\<close> are
  not among the sources. \<open>PAGE_SIZE\<close> is the \<open>int\<close> constant 4096, so
  \<open>queue->pfn * PAGE_SIZE\<close> is a 32-bit product; \<open>struct vring_desc\<close> has 16 bytes,
  an available-ring entry 2 and \<open>struct vring_used_elem\<close> 8. A pointer has 8 bytes.
\<close>

definition PAGE_SIZE :: u32 where "PAGE_SIZE = 4096"
definition sizeof_vring_desc :: u64 where "sizeof_vring_desc = 16"
definition sizeof_avail_entry :: u64 where "sizeof_avail_entry = 2"
definition sizeof_vring_used_elem :: u64 where "sizeof_vring_used_elem = 8"
definition sizeof_pointer :: u64 where "sizeof_pointer = 8"

definition PCI_ALIGN :: "u64 \<Rightarrow> u64" where
  "PCI_ALIGN n = (n + 4095) AND NOT 4095"

definition guest_paddr_to_host_vaddr :: "virtio_device \<Rightarrow> u64 \<Rightarrow> u64" where
  "guest_paddr_to_host_vaddr dev addr = guest_physmem_addr dev + addr"

text \<open>
  \<open>virtio_queue_set_pfn\<close>. The sizes of the available ring, of the used-event cell, of
  the used ring and of the avail-event cell are taken with \<open>sizeof\<close> of the queue's
  pointer fields (\<open>sizeof(queue->avail)\<close> and so on), which is the size of a pointer.
\<close>

definition virtio_queue_set_pfn :: "vm_state \<Rightarrow> nat \<Rightarrow> u32 \<Rightarrow> fault + (mx_status \<times> vm_state)" where
  "virtio_queue_set_pfn s qi new_pfn =
     (case queue_ref s qi of
        Inl f \<Rightarrow> Inl f
      | Inr queue0 \<Rightarrow>
          (case virtio_device queue0 of
             NULL_device \<Rightarrow> Inl NullDeref
           | Owning_device \<Rightarrow>
               let dev = device s;
                   mem_addr = guest_physmem_addr dev;
                   mem_size = guest_physmem_size dev;
                   queue = queue0\<lparr>pfn := new_pfn\<rparr>;
                   desc_paddr = (ucast (pfn queue * PAGE_SIZE) :: u64);
                   desc_size = ucast (qsize queue) * sizeof_vring_desc;
                   desc_host_vaddr = guest_paddr_to_host_vaddr dev desc_paddr;
                   avail_paddr = desc_paddr + desc_size;
                   avail_size = sizeof_pointer + ucast (qsize queue) * sizeof_avail_entry;
                   avail_host_vaddr = guest_paddr_to_host_vaddr dev avail_paddr;
                   used_event_paddr = avail_paddr + avail_size;
                   used_event_size = sizeof_pointer;
                   used_event_host_vaddr = guest_paddr_to_host_vaddr dev used_event_paddr;
                   used_paddr = PCI_ALIGN (used_event_paddr + used_event_size);
                   used_size = sizeof_pointer + ucast (qsize queue) * sizeof_vring_used_elem;
                   used_host_vaddr = guest_paddr_to_host_vaddr dev used_paddr;
                   avail_event_paddr = used_paddr + used_size;
                   avail_event_size = sizeof_pointer;
                   avail_event_host_paddr = guest_paddr_to_host_vaddr dev avail_event_paddr;
                   end = avail_event_host_paddr + avail_event_size
               in if end < desc_paddr \<or> end > mem_addr + mem_size
                  then Inr (MX_ERR_OUT_OF_RANGE, put_queue s qi zero_queue)
                  else Inr (MX_OK, put_queue s qi
                         (queue\<lparr>desc := desc_host_vaddr, avail := avail_host_vaddr,
                            used_event := used_event_host_vaddr, used := used_host_vaddr,
                            avail_event := avail_event_host_paddr\<rparr>))))"

section \<open>Ring indices\<close>

text \<open>
  Modelled from the spec: \<open>virtio/virtio_ring.h\<close> is not among the sources. The
  byte offsets are those of the legacy virtio rings: \<open>struct vring_avail\<close> is
  \<open>flags\<close>, \<open>idx\<close> (both 16 bits) and the ring of 16-bit entries;
  \<open>struct vring_used\<close> is \<open>flags\<close>, \<open>idx\<close> and the ring of
  \<open>{id, len}\<close> (both 32 bits); \<open>struct vring_desc\<close> is \<open>addr\<close> (64 bits),
  \<open>len\<close> (32), \<open>flags\<close> and \<open>next\<close> (16 each).
\<close>

definition avail_idx :: "memory \<Rightarrow> virtio_queue \<Rightarrow> u16" where
  "avail_idx m queue = load16 m (avail queue + 2)"

definition avail_ring :: "memory \<Rightarrow> virtio_queue \<Rightarrow> u32 \<Rightarrow> u16" where
  "avail_ring m queue i = load16 m (avail queue + 4 + 2 * ucast i)"

definition used_idx :: "memory \<Rightarrow> virtio_queue \<Rightarrow> u16" where
  "used_idx m queue = load16 m (used queue + 2)"

definition used_elem :: "virtio_queue \<Rightarrow> u32 \<Rightarrow> u64" where
  "used_elem queue i = used queue + 4 + 8 * ucast i"

definition desc_at :: "virtio_queue \<Rightarrow> u16 \<Rightarrow> u64" where
  "desc_at queue i = desc queue + 16 * ucast i"

definition desc_addr :: "memory \<Rightarrow> u64 \<Rightarrow> u64" where "desc_addr m d = load64 m d"
definition desc_len :: "memory \<Rightarrow> u64 \<Rightarrow> u32" where "desc_len m d = load32 m (d + 8)"
definition desc_flags :: "memory \<Rightarrow> u64 \<Rightarrow> u16" where "desc_flags m d = load16 m (d + 12)"
definition desc_next :: "memory \<Rightarrow> u64 \<Rightarrow> u16" where "desc_next m d = load16 m (d + 14)"

definition VRING_DESC_F_NEXT :: u16 where "VRING_DESC_F_NEXT = 1"
definition VRING_DESC_F_WRITE :: u16 where "VRING_DESC_F_WRITE = 2"
definition VIRTIO_ISR_QUEUE :: u8 where "VIRTIO_ISR_QUEUE = 1"

text \<open>\<open>ring_index\<close>: \<open>index % queue->size\<close>, undefined for size 0.\<close>

definition ring_index :: "virtio_queue \<Rightarrow> u32 \<Rightarrow> fault + u32" where
  "ring_index queue i = (if qsize queue = 0 then Inl DivByZero else Inr (i mod qsize queue))"

text \<open>
  \<open>ring_avail_count\<close> returns \<open>int\<close>. Its operands \<open>queue->avail->idx\<close> and
  \<open>queue->index\<close> are 16-bit unsigned, so C promotes both to \<open>int\<close> before it
  subtracts: the difference is that of the two values as integers, between -65535 and
  65535, and nothing wraps.
\<close>

definition ring_avail_count :: "memory \<Rightarrow> virtio_queue \<Rightarrow> int" where
  "ring_avail_count m queue =
     (if avail queue = 0 then 0 else uint (avail_idx m queue) - uint (index queue))"

definition selected_queue :: "virtio_device \<Rightarrow> nat option" where
  "selected_queue dev =
     (if queue_sel dev < num_queues dev then Some (unat (queue_sel dev)) else None)"

section \<open>The virtqueue\<close>

definition virtio_queue_signal :: "vm_state \<Rightarrow> nat \<Rightarrow> fault + vm_state" where
  "virtio_queue_signal s qi =
     (case queue_ref s qi of
        Inl f \<Rightarrow> Inl f
      | Inr queue \<Rightarrow>
          if ring_avail_count (mem s) queue > 0
          then Inr (s\<lparr>trace := trace s @ [CndSignal qi]\<rparr>)
          else Inr s)"

text \<open>
  \<open>virtio_queue_next_avail_locked\<close>. The out-parameter \<open>*index\<close> is \<open>Some\<close> of the
  value stored, \<open>None\<close> where the source leaves it alone.
\<close>

definition virtio_queue_next_avail_locked ::
    "vm_state \<Rightarrow> nat \<Rightarrow> fault + (mx_status \<times> u16 option \<times> vm_state)" where
  "virtio_queue_next_avail_locked s qi =
     (case queue_ref s qi of
        Inl f \<Rightarrow> Inl f
      | Inr queue \<Rightarrow>
          if ring_avail_count (mem s) queue < 1 then Inr (MX_ERR_NOT_FOUND, None, s)
          else (case ring_index queue (ucast (index queue)) of
                  Inl f \<Rightarrow> Inl f
                | Inr slot \<Rightarrow>
                    Inr (MX_OK, Some (avail_ring (mem s) queue slot),
                         put_queue s qi (queue\<lparr>index := index queue + 1\<rparr>))))"

definition virtio_queue_next_avail ::
    "vm_state \<Rightarrow> nat \<Rightarrow> fault + (mx_status \<times> u16 option \<times> vm_state)" where
  "virtio_queue_next_avail s qi = virtio_queue_next_avail_locked s qi"

text \<open>\<open>virtio_desc_t\<close>, the out-parameter of \<open>virtio_queue_read_desc\<close>.\<close>

record virtio_desc =
  d_addr :: u64
  d_len :: u32
  d_has_next :: bool
  d_writable :: bool
  d_next :: u16

definition virtio_queue_read_desc ::
    "vm_state \<Rightarrow> nat \<Rightarrow> u16 \<Rightarrow> fault + (mx_status \<times> virtio_desc option)" where
  "virtio_queue_read_desc s qi desc_index =
     (case queue_ref s qi of
        Inl f \<Rightarrow> Inl f
      | Inr queue \<Rightarrow>
          (case virtio_device queue of
             NULL_device \<Rightarrow> Inl NullDeref
           | Owning_device \<Rightarrow>
               if desc queue = 0 then Inl NullDeref
               else
                 let dev = device s;
                     d = desc_at queue desc_index;
                     mem_size = guest_physmem_size dev;
                     end = desc_addr (mem s) d + ucast (desc_len (mem s) d)
                 in if end < desc_addr (mem s) d \<or> end > mem_size
                    then Inr (MX_ERR_OUT_OF_RANGE, None)
                    else Inr (MX_OK, Some
                           \<lparr>d_addr = guest_paddr_to_host_vaddr dev (desc_addr (mem s) d),
                            d_len = desc_len (mem s) d,
                            d_has_next = (desc_flags (mem s) d AND VRING_DESC_F_NEXT \<noteq> 0),
                            d_writable = (desc_flags (mem s) d AND VRING_DESC_F_WRITE \<noteq> 0),
                            d_next = desc_next (mem s) d\<rparr>)))"

text \<open>
  \<open>virtio_queue_return\<close>: the used-ring entry at \<open>used->idx\<close> modulo the size, the
  increment of \<open>used->idx\<close>, then the queue bit of the owning device's \<open>isr_status\<close>.
\<close>

definition virtio_queue_return :: "vm_state \<Rightarrow> nat \<Rightarrow> u16 \<Rightarrow> u32 \<Rightarrow> fault + vm_state" where
  "virtio_queue_return s qi head len =
     (case queue_ref s qi of
        Inl f \<Rightarrow> Inl f
      | Inr queue \<Rightarrow>
          if used queue = 0 then Inl NullDeref
          else (case ring_index queue (ucast (used_idx (mem s) queue)) of
                  Inl f \<Rightarrow> Inl f
                | Inr slot \<Rightarrow>
                    let e = used_elem queue slot;
                        m1 = store32 (mem s) e (ucast head);
                        m2 = store32 m1 (e + 4) len;
                        m3 = store16 m2 (used queue + 2) (used_idx m2 queue + 1)
                    in (case virtio_device queue of
                          NULL_device \<Rightarrow> Inl NullDeref
                        | Owning_device \<Rightarrow>
                            Inr (s\<lparr>device := (device s)\<lparr>isr_status :=
                                     isr_status (device s) OR VIRTIO_ISR_QUEUE\<rparr>,
                                   mem := m3,
                                   trace := trace s @ [UsedRingWrite qi head len]\<rparr>))))"

section \<open>The descriptor chain\<close>

text \<open>
  A \<open>virtio_queue_fn_t\<close> handler receives the host address, length and flags of one
  descriptor, the running used length and its context; it may write guest memory. It
  returns a status, the used length, its context and the memory.
\<close>

type_synonym 'c queue_fn =
  "u64 \<Rightarrow> u32 \<Rightarrow> u16 \<Rightarrow> u32 \<Rightarrow> 'c \<Rightarrow> memory \<Rightarrow> mx_status \<times> u32 \<times> 'c \<times> memory"

text \<open>
  One pass through the body of the \<open>do ... while\<close> loop of
  \<open>virtio_queue_handler\<close>: it either leaves the function (\<open>Return\<close>: the bounds
  error, the handler's error, or the normal exit of the loop, whose status is
  \<open>MX_OK\<close>) or goes round again with the next descriptor index (\<open>Next\<close>).
\<close>

datatype 'c step =
    Return "fault + (mx_status \<times> u32 \<times> 'c \<times> vm_state)"
  | Next u16 u32 'c vm_state

definition chain_step ::
    "'c queue_fn \<Rightarrow> nat \<Rightarrow> u64 \<Rightarrow> u64 \<Rightarrow> u16 \<Rightarrow> u32 \<Rightarrow> 'c \<Rightarrow> vm_state \<Rightarrow> 'c step" where
  "chain_step handler qi mem_addr mem_size desc_index used_len ctx s =
     (case queue_ref s qi of
        Inl f \<Rightarrow> Return (Inl f)
      | Inr queue \<Rightarrow>
          if desc queue = 0 then Return (Inl NullDeref)
          else
            let d = desc_at queue desc_index;
                end = desc_addr (mem s) d + ucast (desc_len (mem s) d)
            in if end < desc_addr (mem s) d \<or> end > mem_size
               then Return (Inr (MX_ERR_OUT_OF_RANGE, used_len, ctx, s))
               else
                 let addr = mem_addr + desc_addr (mem s) d;
                     len = desc_len (mem s) d;
                     flags = desc_flags (mem s) d
                 in (case handler addr len flags used_len ctx (mem s) of
                       (st, used_len', ctx', m') \<Rightarrow>
                         let s' = s\<lparr>mem := m', trace := trace s @ [HandlerCall addr len flags]\<rparr>
                         in if st \<noteq> MX_OK then Return (Inr (st, used_len', ctx', s'))
                            else if desc_flags m' d AND VRING_DESC_F_NEXT \<noteq> 0
                            then Next (desc_next m' d) used_len' ctx' s'
                            else Return (Inr (MX_OK, used_len', ctx', s'))))"

text \<open>
  The loop. The source has no bound on the number of links it follows, so the loop
  takes fuel, and \<open>None\<close> says that the fuel ran out.
\<close>

fun chain_walk ::
    "nat \<Rightarrow> 'c queue_fn \<Rightarrow> nat \<Rightarrow> u64 \<Rightarrow> u64 \<Rightarrow> u16 \<Rightarrow> u32 \<Rightarrow> 'c \<Rightarrow> vm_state
      \<Rightarrow> (fault + (mx_status \<times> u32 \<times> 'c \<times> vm_state)) option" where
  "chain_walk 0 handler qi mem_addr mem_size desc_index used_len ctx s = None"
| "chain_walk (Suc n) handler qi mem_addr mem_size desc_index used_len ctx s =
     (case chain_step handler qi mem_addr mem_size desc_index used_len ctx s of
        Return r \<Rightarrow> Some r
      | Next desc_index' used_len' ctx' s' \<Rightarrow>
          chain_walk n handler qi mem_addr mem_size desc_index' used_len' ctx' s')"

definition virtio_queue_handler ::
    "nat \<Rightarrow> 'c queue_fn \<Rightarrow> vm_state \<Rightarrow> nat \<Rightarrow> 'c
      \<Rightarrow> (fault + (mx_status \<times> 'c \<times> vm_state)) option" where
  "virtio_queue_handler fuel handler s qi ctx =
     (case queue_ref s qi of
        Inl f \<Rightarrow> Some (Inl f)
      | Inr queue \<Rightarrow>
          (case virtio_device queue of
             NULL_device \<Rightarrow> Some (Inl NullDeref)
           | Owning_device \<Rightarrow>
               let mem_addr = guest_physmem_addr (device s);
                   mem_size = guest_physmem_size (device s)
               in (case virtio_queue_next_avail s qi of
                     Inl f \<Rightarrow> Some (Inl f)
                   | Inr (st, head_opt, s1) \<Rightarrow>
                       if st = MX_ERR_NOT_FOUND then Some (Inr (MX_OK, ctx, s1))
                       else if st \<noteq> MX_OK then Some (Inr (st, ctx, s1))
                       else (case head_opt of
                               None \<Rightarrow> Some (Inl UninitialisedRead)
                             | Some head \<Rightarrow>
                                 (case chain_walk fuel handler qi mem_addr mem_size head 0 ctx s1 of
                                    None \<Rightarrow> None
                                  | Some (Inl f) \<Rightarrow> Some (Inl f)
                                  | Some (Inr (st', used_len, ctx', s2)) \<Rightarrow>
                                      if st' \<noteq> MX_OK then Some (Inr (st', ctx', s2))
                                      else (case virtio_queue_return s2 qi head used_len of
                                              Inl f \<Rightarrow> Some (Inl f)
                                            | Inr s3 \<Rightarrow>
                                                (case queue_ref s3 qi of
                                                   Inl f \<Rightarrow> Some (Inl f)
                                                 | Inr queue3 \<Rightarrow>
                                                     Some (Inr
                                                       (if ring_avail_count (mem s3) queue3 > 0
                                                        then MX_ERR_NEXT else MX_OK,
                                                        ctx', s3)))))))))"

section \<open>The legacy PCI transport\<close>

text \<open>
  \<open>mx_vcpu_io_t\<close> and \<open>mx_packet_guest_io_t\<close>: the access size and the four bytes of
  the union of \<open>u8\<close>, \<open>u16\<close> and \<open>u32\<close>, which overlay one another from the lowest
  byte up.
\<close>

record guest_io =
  access_size :: u8
  io_b0 :: u8
  io_b1 :: u8
  io_b2 :: u8
  io_b3 :: u8

definition io_u8 :: "guest_io \<Rightarrow> u8" where
  "io_u8 io = io_b0 io"

definition io_u16 :: "guest_io \<Rightarrow> u16" where
  "io_u16 io = ucast (io_b0 io) OR push_bit 8 (ucast (io_b1 io))"

definition io_u32 :: "guest_io \<Rightarrow> u32" where
  "io_u32 io = ucast (io_b0 io) OR push_bit 8 (ucast (io_b1 io))
     OR push_bit 16 (ucast (io_b2 io)) OR push_bit 24 (ucast (io_b3 io))"

definition set_io_u8 :: "u8 \<Rightarrow> guest_io \<Rightarrow> guest_io" where
  "set_io_u8 v io = io\<lparr>io_b0 := v\<rparr>"

definition set_io_u16 :: "u16 \<Rightarrow> guest_io \<Rightarrow> guest_io" where
  "set_io_u16 v io = io\<lparr>io_b0 := ucast v, io_b1 := ucast (drop_bit 8 v)\<rparr>"

definition set_io_u32 :: "u32 \<Rightarrow> guest_io \<Rightarrow> guest_io" where
  "set_io_u32 v io = io\<lparr>io_b0 := ucast v, io_b1 := ucast (drop_bit 8 v),
     io_b2 := ucast (drop_bit 16 v), io_b3 := ucast (drop_bit 24 v)\<rparr>"

text \<open>
  Modelled from the spec: \<open>virtio/virtio.h\<close> is not among the sources. The port
  offsets of the registers of section 4.5 are those of the legacy virtio PCI header.
\<close>

definition VIRTIO_PCI_DEVICE_FEATURES :: u16 where "VIRTIO_PCI_DEVICE_FEATURES = 0x0"
definition VIRTIO_PCI_DRIVER_FEATURES :: u16 where "VIRTIO_PCI_DRIVER_FEATURES = 0x4"
definition VIRTIO_PCI_QUEUE_PFN :: u16 where "VIRTIO_PCI_QUEUE_PFN = 0x8"
definition VIRTIO_PCI_QUEUE_SIZE :: u16 where "VIRTIO_PCI_QUEUE_SIZE = 0xc"
definition VIRTIO_PCI_QUEUE_SELECT :: u16 where "VIRTIO_PCI_QUEUE_SELECT = 0xe"
definition VIRTIO_PCI_QUEUE_NOTIFY :: u16 where "VIRTIO_PCI_QUEUE_NOTIFY = 0x10"
definition VIRTIO_PCI_DEVICE_STATUS :: u16 where "VIRTIO_PCI_DEVICE_STATUS = 0x12"
definition VIRTIO_PCI_ISR_STATUS :: u16 where "VIRTIO_PCI_ISR_STATUS = 0x13"
definition VIRTIO_PCI_DEVICE_CFG_BASE :: u16 where "VIRTIO_PCI_DEVICE_CFG_BASE = 0x14"

text \<open>
  The collaborators of the transport: the device's \<open>ops\<close> table (\<open>queue_notify\<close> may
  be null) and \<open>pci_interrupt\<close> of the PCI bus, of which the model keeps the status it
  returns.
\<close>

record env =
  ops_read :: "vm_state \<Rightarrow> u16 \<Rightarrow> guest_io \<Rightarrow> mx_status \<times> guest_io \<times> vm_state"
  ops_write :: "vm_state \<Rightarrow> u16 \<Rightarrow> guest_io \<Rightarrow> mx_status \<times> vm_state"
  ops_queue_notify :: "(vm_state \<Rightarrow> u16 \<Rightarrow> mx_status \<times> vm_state) option"
  pci_interrupt :: "vm_state \<Rightarrow> mx_status"

definition virtio_pci_legacy_read ::
    "env \<Rightarrow> vm_state \<Rightarrow> u8 \<Rightarrow> u16 \<Rightarrow> guest_io \<Rightarrow> fault + (mx_status \<times> guest_io \<times> vm_state)" where
  "virtio_pci_legacy_read e s bar port vcpu_io =
     (if bar \<noteq> 0 then Inr (MX_ERR_NOT_SUPPORTED, vcpu_io, s)
      else
        let dev = device s; queue = selected_queue dev
        in if port = VIRTIO_PCI_DEVICE_FEATURES
           then Inr (MX_OK, set_io_u32 (features dev) (vcpu_io\<lparr>access_size := 4\<rparr>), s)
           else if port = VIRTIO_PCI_QUEUE_PFN
           then (case queue of
                   None \<Rightarrow> Inr (MX_ERR_NOT_SUPPORTED, vcpu_io, s)
                 | Some qi \<Rightarrow>
                     (case queue_ref s qi of
                        Inl f \<Rightarrow> Inl f
                      | Inr q \<Rightarrow> Inr (MX_OK, set_io_u32 (pfn q) (vcpu_io\<lparr>access_size := 4\<rparr>), s)))
           else if port = VIRTIO_PCI_QUEUE_SIZE
           then (case queue of
                   None \<Rightarrow> Inr (MX_ERR_NOT_SUPPORTED, vcpu_io, s)
                 | Some qi \<Rightarrow>
                     (case queue_ref s qi of
                        Inl f \<Rightarrow> Inl f
                      | Inr q \<Rightarrow>
                          Inr (MX_OK, set_io_u16 (ucast (qsize q)) (vcpu_io\<lparr>access_size := 2\<rparr>), s)))
           else if port = VIRTIO_PCI_DEVICE_STATUS
           then Inr (MX_OK, set_io_u8 (status dev) (vcpu_io\<lparr>access_size := 1\<rparr>), s)
           else if port = VIRTIO_PCI_ISR_STATUS
           then Inr (MX_OK, set_io_u8 (isr_status dev) (vcpu_io\<lparr>access_size := 1\<rparr>),
                     s\<lparr>device := dev\<lparr>isr_status := 0\<rparr>\<rparr>)
           else if port \<ge> VIRTIO_PCI_DEVICE_CFG_BASE
           then Inr (ops_read e s (port - VIRTIO_PCI_DEVICE_CFG_BASE) vcpu_io)
           else Inr (MX_ERR_NOT_SUPPORTED, vcpu_io, s))"

text \<open>
  \<open>virtio_pci_legacy_write\<close>. The case \<open>VIRTIO_PCI_QUEUE_SIZE\<close> stores through
  \<open>queue\<close> without testing it, unlike the case \<open>VIRTIO_PCI_QUEUE_PFN\<close> above it.
\<close>

definition virtio_pci_legacy_write ::
    "env \<Rightarrow> vm_state \<Rightarrow> u8 \<Rightarrow> u16 \<Rightarrow> guest_io \<Rightarrow> fault + (mx_status \<times> vm_state)" where
  "virtio_pci_legacy_write e s bar port io =
     (if bar \<noteq> 0 then Inr (MX_ERR_NOT_SUPPORTED, s)
      else
        let dev = device s; queue = selected_queue dev
        in if port = VIRTIO_PCI_DRIVER_FEATURES
           then (if access_size io \<noteq> 4 then Inr (MX_ERR_IO_DATA_INTEGRITY, s)
                 else if io_u32 io \<noteq> features dev then Inr (MX_ERR_INVALID_ARGS, s)
                 else Inr (MX_OK, s))
           else if port = VIRTIO_PCI_DEVICE_STATUS
           then (if access_size io \<noteq> 1 then Inr (MX_ERR_IO_DATA_INTEGRITY, s)
                 else Inr (MX_OK, s\<lparr>device := dev\<lparr>status := io_u8 io\<rparr>\<rparr>))
           else if port = VIRTIO_PCI_QUEUE_PFN
           then (if access_size io \<noteq> 4 then Inr (MX_ERR_IO_DATA_INTEGRITY, s)
                 else (case queue of
                         None \<Rightarrow> Inr (MX_ERR_NOT_SUPPORTED, s)
                       | Some qi \<Rightarrow> virtio_queue_set_pfn s qi (io_u32 io)))
           else if port = VIRTIO_PCI_QUEUE_SIZE
           then (if access_size io \<noteq> 2 then Inr (MX_ERR_IO_DATA_INTEGRITY, s)
                 else (case queue of
                         None \<Rightarrow> Inl NullDeref
                       | Some qi \<Rightarrow>
                           (case queue_ref s qi of
                              Inl f \<Rightarrow> Inl f
                            | Inr q \<Rightarrow> Inr (MX_OK, put_queue s qi (q\<lparr>qsize := ucast (io_u16 io)\<rparr>)))))
           else if port = VIRTIO_PCI_QUEUE_SELECT
           then (if access_size io \<noteq> 2 then Inr (MX_ERR_IO_DATA_INTEGRITY, s)
                 else if io_u16 io \<ge> num_queues dev then Inr (MX_ERR_NOT_SUPPORTED, s)
                 else Inr (MX_OK, s\<lparr>device := dev\<lparr>queue_sel := io_u16 io\<rparr>\<rparr>))
           else if port = VIRTIO_PCI_QUEUE_NOTIFY
           then (if access_size io \<noteq> 2 then Inr (MX_ERR_IO_DATA_INTEGRITY, s)
                 else if io_u16 io \<ge> num_queues dev then Inr (MX_ERR_NOT_SUPPORTED, s)
                 else
                   let queue_sel = io_u16 io
                   in (case ops_queue_notify e of
                         None \<Rightarrow>
                           (case virtio_queue_signal s (unat queue_sel) of
                              Inl f \<Rightarrow> Inl f
                            | Inr s' \<Rightarrow> Inr (MX_OK, s'))
                       | Some queue_notify \<Rightarrow>
                           (case queue_notify (s\<lparr>trace := trace s @ [QueueNotifyCall queue_sel]\<rparr>)
                                   queue_sel of
                              (st, s1) \<Rightarrow>
                                if st \<noteq> MX_OK then Inr (st, s1)
                                else if isr_status (device s1) > 0
                                then Inr (pci_interrupt e s1,
                                          s1\<lparr>trace := trace s1 @ [PciInterrupt]\<rparr>)
                                else (case virtio_queue_signal s1 (unat queue_sel) of
                                        Inl f \<Rightarrow> Inl f
                                      | Inr s' \<Rightarrow> Inr (MX_OK, s')))))
           else if port \<ge> VIRTIO_PCI_DEVICE_CFG_BASE
           then Inr (ops_write e s (port - VIRTIO_PCI_DEVICE_CFG_BASE) io)
           else Inr (MX_ERR_NOT_SUPPORTED, s))"

section \<open>The legacy ring layout, as the specification words it\<close>

text \<open>
  Guest-physical byte offsets of the five regions of a ring.
\<close>

record ring_layout =
  desc_off :: nat
  avail_off :: nat
  used_event_off :: nat
  used_off :: nat
  avail_event_off :: nat

text \<open>
  Section 4.1 of the specification with the sizes of the legacy virtio rings: a
  descriptor has 16 bytes, the header of the available ring and of the used ring
  (\<open>flags\<close> and \<open>idx\<close>) 4, an available entry 2, a used entry 8, and the used-event
  cell 2; the used ring starts at the next multiple of the page size.
\<close>

definition legacy_ring_layout :: "nat \<Rightarrow> nat \<Rightarrow> nat \<Rightarrow> ring_layout" where
  "legacy_ring_layout page_size pfn_no n =
     (let d = pfn_no * page_size;
          a = d + 16 * n;
          ue = a + (4 + 2 * n);
          u = ((ue + 2 + page_size - 1) div page_size) * page_size;
          ae = u + (4 + 8 * n)
      in \<lparr>desc_off = d, avail_off = a, used_event_off = ue, used_off = u, avail_event_off = ae\<rparr>)"

text \<open>The offsets of a queue's five pointers from the base of guest memory.\<close>

definition queue_layout :: "virtio_device \<Rightarrow> virtio_queue \<Rightarrow> ring_layout" where
  "queue_layout dev q =
     \<lparr>desc_off = unat (desc q - guest_physmem_addr dev),
      avail_off = unat (avail q - guest_physmem_addr dev),
      used_event_off = unat (used_event q - guest_physmem_addr dev),
      used_off = unat (used q - guest_physmem_addr dev),
      avail_event_off = unat (avail_event q - guest_physmem_addr dev)\<rparr>"

section \<open>Notions the properties are stated with\<close>

text \<open>
  The specification's condition on a descriptor at host address \<open>d\<close>: \<open>addr + len\<close>,
  taken as numbers, exceeds the size of guest memory (a sum that overflows 64 bits
  exceeds every size).
\<close>

definition desc_out_of_bounds :: "memory \<Rightarrow> u64 \<Rightarrow> u64 \<Rightarrow> bool" where
  "desc_out_of_bounds m d mem_size \<longleftrightarrow> unat mem_size < unat (desc_addr m d) + unat (desc_len m d)"

text \<open>
  The first \<open>k\<close> passes through the loop body when each of them goes round again:
  the loop variables after them, and \<open>None\<close> when one of these passes leaves the
  function.
\<close>

fun chain_prefix ::
    "nat \<Rightarrow> 'c queue_fn \<Rightarrow> nat \<Rightarrow> u64 \<Rightarrow> u64 \<Rightarrow> u16 \<Rightarrow> u32 \<Rightarrow> 'c \<Rightarrow> vm_state
      \<Rightarrow> (u16 \<times> u32 \<times> 'c \<times> vm_state) option" where
  "chain_prefix 0 handler qi mem_addr mem_size desc_index used_len ctx s =
     Some (desc_index, used_len, ctx, s)"
| "chain_prefix (Suc k) handler qi mem_addr mem_size desc_index used_len ctx s =
     (case chain_step handler qi mem_addr mem_size desc_index used_len ctx s of
        Return r \<Rightarrow> None
      | Next desc_index' used_len' ctx' s' \<Rightarrow>
          chain_prefix k handler qi mem_addr mem_size desc_index' used_len' ctx' s')"

fun is_handler_call :: "event \<Rightarrow> bool" where
  "is_handler_call (HandlerCall a l f) = True"
| "is_handler_call _ = False"

text \<open>The status of a run of \<open>virtio_queue_handler\<close>, and the status and effects of a write.\<close>

definition handler_status ::
    "(fault + (mx_status \<times> 'c \<times> vm_state)) option \<Rightarrow> (fault + mx_status) option" where
  "handler_status r = map_option (map_sum id fst) r"



section \<open>Concrete states\<close>

text \<open>
  Scenario A of the specification: one queue of capacity 4 in a guest of 1 MiB, mapped
  at host address \<open>0x10000000\<close>; \<open>ready_queue\<close> is that queue with its rings at page
  frame 1.
\<close>

definition scenario_queue :: virtio_queue where
  "scenario_queue = zero_queue\<lparr>qsize := 4, virtio_device := Owning_device\<rparr>"

definition scenario_device :: virtio_device where
  "scenario_device = \<lparr>features = 0, status = 0, isr_status = 0, queue_sel = 0, num_queues = 1,
     queues = [scenario_queue], guest_physmem_addr = 0x10000000, guest_physmem_size = 0x100000\<rparr>"

definition scenario_state :: vm_state where
  "scenario_state = \<lparr>device = scenario_device, mem = (\<lambda>_. 0), trace = []\<rparr>"

definition ready_queue :: virtio_queue where
  "ready_queue = scenario_queue\<lparr>pfn := 1, desc := 0x10001000, avail := 0x10001040,
     used_event := 0x10001050, used := 0x10002000, avail_event := 0x10002028\<rparr>"

definition ready_state :: "memory \<Rightarrow> vm_state" where
  "ready_state m = \<lparr>device = scenario_device\<lparr>queues := [ready_queue]\<rparr>, mem = m, trace = []\<rparr>"

text \<open>
  The queue after 65535 buffers were consumed and the guest published one more: the
  guest's \<open>avail->idx\<close> has wrapped to 0, the cursor is 65535.
\<close>

definition wrapped_state :: vm_state where
  "wrapped_state = put_queue (ready_state (\<lambda>_. 0)) 0 (ready_queue\<lparr>index := 65535\<rparr>)"

text \<open>
  The queue after 65534 buffers were consumed and the guest published three more: the
  guest's \<open>avail->idx\<close> has wrapped to 1, the cursor is 65534, and the slot of the
  cursor, 65534 modulo 4, holds descriptor 2.
\<close>

definition wrapped_pending_state :: vm_state where
  "wrapped_pending_state =
     put_queue (ready_state ((\<lambda>_. 0)(0x10001042 := 1, 0x10001048 := 2))) 0
       (ready_queue\<lparr>index := 65534\<rparr>)"

text \<open>
  Scenario B of the specification: \<open>avail->idx\<close> is 1, slot 0 of the available ring
  holds descriptor 2, the cursor is 0.
\<close>

definition pending_state :: vm_state where
  "pending_state = ready_state ((\<lambda>_. 0)(0x10001042 := 1, 0x10001044 := 2))"

text \<open>A device without queues, as \<open>num_queues = 0\<close> and \<open>queue_sel = 0\<close> give it.\<close>

definition no_queue_state :: vm_state where
  "no_queue_state = scenario_state\<lparr>device := scenario_device\<lparr>num_queues := 0, queues := []\<rparr>\<rparr>"

text \<open>An access of \<open>n\<close> bytes whose lowest byte is \<open>b\<close>.\<close>

definition io_of :: "u8 \<Rightarrow> u8 \<Rightarrow> guest_io" where
  "io_of n b = \<lparr>access_size = n, io_b0 = b, io_b1 = 0, io_b2 = 0, io_b3 = 0\<rparr>"

definition features_state :: vm_state where
  "features_state = scenario_state\<lparr>device := scenario_device\<lparr>features := 0x01000021\<rparr>\<rparr>"

definition features_io :: guest_io where
  "features_io = \<lparr>access_size = 4, io_b0 = 0x21, io_b1 = 0, io_b2 = 0, io_b3 = 1\<rparr>"

text \<open>A device with no notify callback and no device-specific configuration.\<close>

definition null_env :: env where
  "null_env = \<lparr>ops_read = (\<lambda>s off io. (MX_ERR_NOT_SUPPORTED, io, s)),
     ops_write = (\<lambda>s off io. (MX_ERR_NOT_SUPPORTED, s)),
     ops_queue_notify = None,
     pci_interrupt = (\<lambda>s. MX_OK)\<rparr>"

text \<open>
  A guest chain of two descriptors behind head 0: descriptor 0 is a buffer of 16 bytes
  at guest address \<open>0x3000\<close> that links to descriptor 1; descriptor 1 is a buffer of
  16 bytes at \<open>0x100000\<close>, the end of the 1 MiB of guest memory.
\<close>

definition chain_mem :: memory where
  "chain_mem = (\<lambda>_. 0)(0x10001042 := 1, 0x10001001 := 0x30, 0x10001008 := 16,
     0x1000100c := 1, 0x1000100e := 1, 0x10001012 := 0x10, 0x10001018 := 16)"

definition chain_state :: vm_state where
  "chain_state = ready_state chain_mem"

definition taken_state :: vm_state where
  "taken_state = put_queue chain_state 0 (ready_queue\<lparr>index := 1\<rparr>)"

definition aborted_state :: vm_state where
  "aborted_state = taken_state\<lparr>trace := [HandlerCall 0x10003000 16 1]\<rparr>"

definition failing_handler :: "unit queue_fn" where
  "failing_handler addr len flags used_len ctx m = (MX_ERR_INTERNAL, used_len, ctx, m)"

definition ok_handler :: "unit queue_fn" where
  "ok_handler addr len flags used_len ctx m = (MX_OK, used_len + len, ctx, m)"



section \<open>Properties of the ring layout\<close>

lemmas layout_consts = PAGE_SIZE_def sizeof_vring_desc_def sizeof_avail_entry_def
  sizeof_vring_used_elem_def sizeof_pointer_def PCI_ALIGN_def guest_paddr_to_host_vaddr_def

lemmas port_defs = VIRTIO_PCI_DEVICE_FEATURES_def VIRTIO_PCI_DRIVER_FEATURES_def
  VIRTIO_PCI_QUEUE_PFN_def VIRTIO_PCI_QUEUE_SIZE_def VIRTIO_PCI_QUEUE_SELECT_def
  VIRTIO_PCI_QUEUE_NOTIFY_def VIRTIO_PCI_DEVICE_STATUS_def VIRTIO_PCI_ISR_STATUS_def
  VIRTIO_PCI_DEVICE_CFG_BASE_def

lemmas mem_defs = load16_def load32_def load64_def desc_addr_def desc_len_def desc_flags_def
  desc_next_def desc_at_def avail_idx_def avail_ring_def

lemmas scenario_defs = scenario_state_def scenario_device_def scenario_queue_def zero_queue_def
  ready_queue_def ready_state_def

text \<open>
  What a successful \<open>virtio_queue_set_pfn\<close> stores, for every page frame number and
  capacity: the used-event cell lies 8 bytes plus the entries after the start of the
  available ring, and the avail-event cell 8 bytes plus the entries after the start of
  the used ring.
\<close>

lemma set_pfn_success_layout:
  assumes "virtio_queue_set_pfn s qi p = Inr (MX_OK, s')" and "queue_ref s' qi = Inr q'"
  shows "desc q' = guest_physmem_addr (device s) + ucast (p * 4096)"
    and "avail q' = desc q' + 16 * ucast (qsize q')"
    and "used_event q' = avail q' + (8 + 2 * ucast (qsize q'))"
    and "used q' = guest_physmem_addr (device s)
           + PCI_ALIGN (used_event q' - guest_physmem_addr (device s) + 8)"
    and "avail_event q' = used q' + (8 + 8 * ucast (qsize q'))"
  using assms
  by (auto simp: virtio_queue_set_pfn_def queue_ref_def put_queue_def Let_def layout_consts
        split: sum.splits device_ptr.splits if_splits)

text \<open>
  C1. In scenario A (capacity 4, page frame 1, 1 MiB of guest memory)
  \<open>virtio_queue_set_pfn\<close> succeeds and puts the descriptor table, the available ring and
  the used ring at the legacy offsets 4096, 4160 and 8192, but the used-event cell at
  4176 and the avail-event cell at 8232, where the legacy layout has them at 4172 and
  8228.
\<close>

theorem set_pfn_scenario_layout:
  "virtio_queue_set_pfn scenario_state 0 1 = Inr (MX_OK, ready_state (\<lambda>_. 0))
   \<and> queue_layout scenario_device ready_queue =
       \<lparr>desc_off = 4096, avail_off = 4160, used_event_off = 4176, used_off = 8192,
        avail_event_off = 8232\<rparr>
   \<and> legacy_ring_layout 4096 1 4 =
       \<lparr>desc_off = 4096, avail_off = 4160, used_event_off = 4172, used_off = 8192,
        avail_event_off = 8228\<rparr>"
  by (simp add: virtio_queue_set_pfn_def queue_ref_def put_queue_def layout_consts scenario_defs
        queue_layout_def legacy_ring_layout_def Let_def)

text \<open>
  After any failed \<open>virtio_queue_set_pfn\<close> the queue is all zero, its pointer to the
  owning device included, and every further \<open>virtio_queue_set_pfn\<close> on it dereferences
  that null pointer.
\<close>

lemma set_pfn_after_failure:
  assumes "virtio_queue_set_pfn s qi p = Inr (MX_ERR_OUT_OF_RANGE, s')"
  shows "queue_ref s' qi = Inr zero_queue" and "virtio_queue_set_pfn s' qi p' = Inl NullDeref"
  using assms
  by (auto simp: virtio_queue_set_pfn_def queue_ref_def put_queue_def Let_def zero_queue_def
        split: sum.splits device_ptr.splits if_splits)

text \<open>
  C2. In the 1 MiB guest, \<open>virtio_queue_set_pfn\<close> with page frame \<open>0x200\<close> (2 MiB)
  returns \<open>MX_ERR_OUT_OF_RANGE\<close> and leaves the queue all zero; the following
  \<open>virtio_queue_set_pfn\<close> with the valid page frame 1 does not succeed: it dereferences
  the zeroed pointer to the device.
\<close>

theorem set_pfn_failure_then_null_device:
  "virtio_queue_set_pfn scenario_state 0 0x200
     = Inr (MX_ERR_OUT_OF_RANGE, put_queue scenario_state 0 zero_queue)
   \<and> virtio_queue_set_pfn (put_queue scenario_state 0 zero_queue) 0 1 = Inl NullDeref"
  by (simp add: virtio_queue_set_pfn_def queue_ref_def put_queue_def layout_consts scenario_defs
        Let_def)

section \<open>Properties of the available count\<close>

lemma ring_avail_count_unwrapped:
  assumes "avail q \<noteq> 0" and "index q \<le> avail_idx m q"
  shows "ring_avail_count m q = uint (avail_idx m q - index q)"
  using assms by (simp add: ring_avail_count_def uint_sub_if' word_le_def)

lemma ring_avail_count_negative:
  assumes "avail q \<noteq> 0" and "avail_idx m q < index q"
  shows "ring_avail_count m q < 0" and "avail_idx m q - index q \<noteq> 0"
  using assms by (auto simp: ring_avail_count_def word_less_def)

text \<open>
  C3. With the cursor at 65535 and \<open>avail->idx\<close> wrapped to 0, one entry is pending
  (the difference modulo \<open>2^16\<close> is 1), yet \<open>ring_avail_count\<close> is -65535 and
  \<open>virtio_queue_next_avail\<close> reports the queue empty.
\<close>

theorem ring_avail_count_wrapped:
  "queue_ref wrapped_state 0 = Inr (ready_queue\<lparr>index := 65535\<rparr>)
   \<and> avail_idx (mem wrapped_state) (ready_queue\<lparr>index := 65535\<rparr>) - 65535 = 1
   \<and> ring_avail_count (mem wrapped_state) (ready_queue\<lparr>index := 65535\<rparr>) = - 65535
   \<and> virtio_queue_next_avail wrapped_state 0 = Inr (MX_ERR_NOT_FOUND, None, wrapped_state)"
  by (simp add: wrapped_state_def scenario_defs queue_ref_def put_queue_def avail_idx_def
        load16_def ring_avail_count_def virtio_queue_next_avail_def
        virtio_queue_next_avail_locked_def)

section \<open>Properties of \<open>virtio_queue_next_avail\<close>\<close>

text \<open>
  Where the count that \<open>ring_avail_count\<close> computes is positive and the capacity is
  not zero, \<open>virtio_queue_next_avail\<close> returns the available-ring entry at the cursor
  modulo the capacity and adds one to the cursor. Scenario B of the specification is
  such a state: the call returns descriptor 2 and leaves the cursor at 1, and a second
  call on the resulting state returns \<open>MX_ERR_NOT_FOUND\<close> without a change.
\<close>

lemma next_avail_positive_count:
  assumes "queue_ref s qi = Inr q" and "qsize q \<noteq> 0"
  shows "(0 < ring_avail_count (mem s) q \<longrightarrow>
            virtio_queue_next_avail s qi
              = Inr (MX_OK, Some (avail_ring (mem s) q (ucast (index q) mod qsize q)),
                     put_queue s qi (q\<lparr>index := index q + 1\<rparr>)))
       \<and> (avail q \<noteq> 0 \<and> avail_idx (mem s) q = 1 \<and> index q = 0 \<and> avail_ring (mem s) q 0 = 2 \<longrightarrow>
            virtio_queue_next_avail s qi = Inr (MX_OK, Some 2, put_queue s qi (q\<lparr>index := 1\<rparr>))
          \<and> virtio_queue_next_avail (put_queue s qi (q\<lparr>index := 1\<rparr>)) qi
              = Inr (MX_ERR_NOT_FOUND, None, put_queue s qi (q\<lparr>index := 1\<rparr>)))"
proof -
  have len: "qi < length (queues (device s))" and q: "queues (device s) ! qi = q"
    using assms(1) by (auto simp: queue_ref_def split: if_splits)
  have again: "queue_ref (put_queue s qi (q\<lparr>index := 1\<rparr>)) qi = Inr (q\<lparr>index := 1\<rparr>)"
    using len by (simp add: queue_ref_def put_queue_def)
  show ?thesis
    using assms again
    by (auto simp: virtio_queue_next_avail_def virtio_queue_next_avail_locked_def
          ring_avail_count_def ring_index_def avail_idx_def avail_ring_def put_queue_def)
qed

lemma next_avail_scenario_B:
  "queue_ref pending_state 0 = Inr ready_queue
   \<and> avail_idx (mem pending_state) ready_queue = 1 \<and> index ready_queue = 0
   \<and> avail_ring (mem pending_state) ready_queue 0 = 2
   \<and> 0 < ring_avail_count (mem pending_state) ready_queue
   \<and> virtio_queue_next_avail pending_state 0
       = Inr (MX_OK, Some 2, put_queue pending_state 0 (ready_queue\<lparr>index := 1\<rparr>))
   \<and> virtio_queue_next_avail (put_queue pending_state 0 (ready_queue\<lparr>index := 1\<rparr>)) 0
       = Inr (MX_ERR_NOT_FOUND, None, put_queue pending_state 0 (ready_queue\<lparr>index := 1\<rparr>))"
proof -
  have a: "queue_ref pending_state 0 = Inr ready_queue"
    by (simp add: pending_state_def queue_ref_def scenario_defs)
  have b: "qsize ready_queue \<noteq> 0" by (simp add: scenario_defs)
  have c: "avail ready_queue \<noteq> 0 \<and> avail_idx (mem pending_state) ready_queue = 1
      \<and> index ready_queue = 0 \<and> avail_ring (mem pending_state) ready_queue 0 = 2"
    by (simp add: pending_state_def scenario_defs avail_idx_def avail_ring_def load16_def)
  have d: "0 < ring_avail_count (mem pending_state) ready_queue"
    using c by (simp add: ring_avail_count_def)
  from next_avail_positive_count [OF a b] a c d show ?thesis by simp
qed

text \<open>
  On a queue with an available ring, \<open>virtio_queue_next_avail\<close> reports no work
  although \<open>avail->idx\<close> differs from the cursor exactly when \<open>avail->idx\<close> is
  numerically below the cursor, which is the case of a producer index that has wrapped
  past the cursor.
\<close>

lemma next_avail_not_found_iff:
  assumes "queue_ref s qi = Inr q" and "avail q \<noteq> 0"
  shows "virtio_queue_next_avail s qi = Inr (MX_ERR_NOT_FOUND, None, s)
           \<and> avail_idx (mem s) q - index q \<noteq> 0
         \<longleftrightarrow> avail_idx (mem s) q < index q"
proof -
  let ?a = "avail_idx (mem s) q" and ?b = "index q"
  have found: "virtio_queue_next_avail s qi = Inr (MX_ERR_NOT_FOUND, None, s)
      \<longleftrightarrow> uint ?a - uint ?b < 1"
    using assms
    by (auto simp: virtio_queue_next_avail_def virtio_queue_next_avail_locked_def
          ring_avail_count_def ring_index_def split: sum.splits if_splits)
  have "?a - ?b \<noteq> 0 \<longleftrightarrow> ?a \<noteq> ?b" by simp
  also have "\<dots> \<longleftrightarrow> uint ?a \<noteq> uint ?b" by (simp only: word_uint_eq_iff)
  finally have ne: "?a - ?b \<noteq> 0 \<longleftrightarrow> uint ?a \<noteq> uint ?b" .
  have "uint ?a - uint ?b < 1 \<and> uint ?a \<noteq> uint ?b \<longleftrightarrow> uint ?a < uint ?b"
    by arith
  with found ne show ?thesis by (simp add: word_less_def)
qed

text \<open>
  C6. With the cursor at 65534, \<open>avail->idx\<close> wrapped to 1 and capacity 4, the
  available count modulo \<open>2^16\<close> is 3 and the slot of the cursor holds descriptor 2,
  yet \<open>virtio_queue_next_avail\<close> returns \<open>MX_ERR_NOT_FOUND\<close> and leaves the cursor
  where it is: the count it tests is -65533.
\<close>

theorem next_avail_wrapped_pending:
  "queue_ref wrapped_pending_state 0 = Inr (ready_queue\<lparr>index := 65534\<rparr>)
   \<and> qsize (ready_queue\<lparr>index := 65534\<rparr>) = 4
   \<and> avail_idx (mem wrapped_pending_state) (ready_queue\<lparr>index := 65534\<rparr>) - 65534 = 3
   \<and> avail_ring (mem wrapped_pending_state) (ready_queue\<lparr>index := 65534\<rparr>)
        (ucast (65534 :: u16) mod 4) = 2
   \<and> ring_avail_count (mem wrapped_pending_state) (ready_queue\<lparr>index := 65534\<rparr>) = - 65533
   \<and> virtio_queue_next_avail wrapped_pending_state 0
       = Inr (MX_ERR_NOT_FOUND, None, wrapped_pending_state)"
  by (simp add: wrapped_pending_state_def scenario_defs queue_ref_def put_queue_def avail_idx_def
        avail_ring_def load16_def ring_avail_count_def virtio_queue_next_avail_def
        virtio_queue_next_avail_locked_def)

section \<open>Properties of a queue without an available ring\<close>

lemma next_avail_null_avail:
  assumes "queue_ref s qi = Inr q" and "avail q = 0"
  shows "ring_avail_count m q = 0"
    and "virtio_queue_next_avail s qi = Inr (MX_ERR_NOT_FOUND, None, s)"
  using assms
  by (simp_all add: virtio_queue_next_avail_def virtio_queue_next_avail_locked_def
        ring_avail_count_def)

text \<open>
  With a null available ring and the pointer to the owning device in place, the
  handler returns \<open>MX_OK\<close> for every fuel and every memory, and changes nothing.
\<close>

lemma handler_null_avail:
  assumes "queue_ref s qi = Inr q" and "avail q = 0" and "virtio_device q = Owning_device"
  shows "virtio_queue_handler fuel h s qi ctx = Some (Inr (MX_OK, ctx, s))"
  using assms
  by (simp add: virtio_queue_handler_def virtio_queue_next_avail_def
        virtio_queue_next_avail_locked_def ring_avail_count_def)

text \<open>
  C9. On the queue that a failed \<open>virtio_queue_set_pfn\<close> has zeroed, the available
  count is 0 and \<open>virtio_queue_next_avail\<close> returns \<open>MX_ERR_NOT_FOUND\<close> without a
  change, but \<open>virtio_queue_handler\<close> does not return success: it reads
  \<open>queue->virtio_device->guest_physmem_addr\<close> first, through the zeroed pointer.
\<close>

theorem handler_zeroed_queue:
  "virtio_queue_set_pfn scenario_state 0 0x200
     = Inr (MX_ERR_OUT_OF_RANGE, put_queue scenario_state 0 zero_queue)
   \<and> ring_avail_count m zero_queue = 0
   \<and> virtio_queue_next_avail (put_queue scenario_state 0 zero_queue) 0
       = Inr (MX_ERR_NOT_FOUND, None, put_queue scenario_state 0 zero_queue)
   \<and> virtio_queue_handler fuel h (put_queue scenario_state 0 zero_queue) 0 ctx
       = Some (Inl NullDeref)"
  by (simp add: virtio_queue_handler_def virtio_queue_next_avail_def
        virtio_queue_next_avail_locked_def ring_avail_count_def queue_ref_def put_queue_def
        scenario_defs virtio_queue_set_pfn_def layout_consts Let_def)

section \<open>Properties of the registers\<close>

lemma queue_size_write_unselected:
  assumes "selected_queue (device s) = None" and "access_size io = 2"
  shows "virtio_pci_legacy_write e s 0 VIRTIO_PCI_QUEUE_SIZE io = Inl NullDeref"
  using assms by (simp add: virtio_pci_legacy_write_def port_defs)

text \<open>
  The other three accesses to the selected queue are rejected without a change when no
  queue is selected.
\<close>

lemma queue_register_unselected_rejected:
  assumes "selected_queue (device s) = None"
  shows "virtio_pci_legacy_read e s 0 VIRTIO_PCI_QUEUE_PFN io = Inr (MX_ERR_NOT_SUPPORTED, io, s)"
    and "virtio_pci_legacy_read e s 0 VIRTIO_PCI_QUEUE_SIZE io = Inr (MX_ERR_NOT_SUPPORTED, io, s)"
    and "\<exists>st. virtio_pci_legacy_write e s 0 VIRTIO_PCI_QUEUE_PFN io = Inr (st, s) \<and> st \<noteq> MX_OK"
  using assms
  by (simp_all add: virtio_pci_legacy_write_def virtio_pci_legacy_read_def port_defs)

text \<open>
  C5. On a device without queues no queue is selected; a 2-byte write to
  \<open>QUEUE_SIZE\<close> stores through the null queue pointer, where the 4-byte write to
  \<open>QUEUE_PFN\<close> is rejected with \<open>MX_ERR_NOT_SUPPORTED\<close> and changes nothing.
\<close>

theorem queue_size_write_null_queue:
  "selected_queue (device no_queue_state) = None
   \<and> virtio_pci_legacy_write e no_queue_state 0 VIRTIO_PCI_QUEUE_SIZE (io_of 2 8) = Inl NullDeref
   \<and> virtio_pci_legacy_write e no_queue_state 0 VIRTIO_PCI_QUEUE_PFN (io_of 4 1)
       = Inr (MX_ERR_NOT_SUPPORTED, no_queue_state)"
  by (simp add: virtio_pci_legacy_write_def port_defs no_queue_state_def scenario_defs
        selected_queue_def io_of_def)

text \<open>
  C10. A write to \<open>DRIVER_FEATURES\<close> leaves the whole state as it was, whatever its
  width, value and outcome, and on BAR 0 with width 4 and the advertised feature mask as
  its value it returns \<open>MX_OK\<close>.
\<close>

theorem driver_features_write_no_op:
  "(\<exists>st. virtio_pci_legacy_write e s bar VIRTIO_PCI_DRIVER_FEATURES io = Inr (st, s))
   \<and> (bar = 0 \<and> access_size io = 4 \<and> io_u32 io = features (device s)
        \<longrightarrow> virtio_pci_legacy_write e s bar VIRTIO_PCI_DRIVER_FEATURES io = Inr (MX_OK, s))"
  by (simp add: virtio_pci_legacy_write_def port_defs)

theorem driver_features_write_no_op_witness:
  "io_u32 features_io = features (device features_state)
   \<and> virtio_pci_legacy_write null_env features_state 0 VIRTIO_PCI_DRIVER_FEATURES features_io
       = Inr (MX_OK, features_state)"
proof -
  have h: "(0::u8) = 0 \<and> access_size features_io = 4
      \<and> io_u32 features_io = features (device features_state)"
    by (simp add: features_io_def features_state_def io_u32_def scenario_defs)
  with driver_features_write_no_op [of null_env features_state 0 features_io]
  show ?thesis by blast
qed

section \<open>Properties of the interrupt status\<close>

lemma queue_return_succeeds:
  assumes "queue_ref s qi = Inr q" and "used q \<noteq> 0" and "qsize q \<noteq> 0"
    and "virtio_device q = Owning_device"
  shows "\<exists>s1. virtio_queue_return s qi head len = Inr s1"
  using assms by (simp add: virtio_queue_return_def ring_index_def Let_def)

lemma queue_return_sets_isr:
  assumes "virtio_queue_return s qi head len = Inr s1"
  shows "isr_status (device s1) = isr_status (device s) OR VIRTIO_ISR_QUEUE"
    and "trace s1 = trace s @ [UsedRingWrite qi head len]"
  using assms
  by (auto simp: virtio_queue_return_def Let_def
        split: sum.splits if_splits device_ptr.splits)

lemma isr_queue_bit: "(x :: u8) OR VIRTIO_ISR_QUEUE \<noteq> 0"
  and "(x OR VIRTIO_ISR_QUEUE) AND VIRTIO_ISR_QUEUE = VIRTIO_ISR_QUEUE"
proof -
  have "bit (x OR VIRTIO_ISR_QUEUE) 0" by (simp add: VIRTIO_ISR_QUEUE_def bit_simps)
  then show "x OR VIRTIO_ISR_QUEUE \<noteq> 0" by auto
  show "(x OR VIRTIO_ISR_QUEUE) AND VIRTIO_ISR_QUEUE = VIRTIO_ISR_QUEUE"
    by (simp add: bit_eq_iff bit_simps)
qed

text \<open>
  C8. After a \<open>virtio_queue_return\<close> that returned, the first read of \<open>ISR_STATUS\<close>
  succeeds with a nonzero byte that holds the queue bit and leaves \<open>isr_status\<close> at
  zero, and the read that follows it succeeds with the byte zero.
\<close>

theorem isr_status_read_and_clear:
  assumes "virtio_queue_return s qi head len = Inr s1"
  shows "\<exists>v1 s2 v2 s3.
           virtio_pci_legacy_read e s1 0 VIRTIO_PCI_ISR_STATUS io = Inr (MX_OK, v1, s2)
         \<and> io_u8 v1 \<noteq> 0
         \<and> io_u8 v1 AND VIRTIO_ISR_QUEUE = VIRTIO_ISR_QUEUE
         \<and> isr_status (device s2) = 0
         \<and> virtio_pci_legacy_read e s2 0 VIRTIO_PCI_ISR_STATUS io' = Inr (MX_OK, v2, s3)
         \<and> io_u8 v2 = 0"
  using queue_return_sets_isr(1) [OF assms] isr_queue_bit [of "isr_status (device s)"]
  by (simp add: virtio_pci_legacy_read_def port_defs io_u8_def set_io_u8_def)

theorem isr_status_read_and_clear_witness:
  "\<exists>s1 v1 s2 v2 s3.
       virtio_queue_return (ready_state (\<lambda>_. 0)) 0 2 16 = Inr s1
     \<and> virtio_pci_legacy_read null_env s1 0 VIRTIO_PCI_ISR_STATUS (io_of 1 0) = Inr (MX_OK, v1, s2)
     \<and> io_u8 v1 \<noteq> 0
     \<and> io_u8 v1 AND VIRTIO_ISR_QUEUE = VIRTIO_ISR_QUEUE
     \<and> isr_status (device s2) = 0
     \<and> virtio_pci_legacy_read null_env s2 0 VIRTIO_PCI_ISR_STATUS (io_of 1 0) = Inr (MX_OK, v2, s3)
     \<and> io_u8 v2 = 0"
proof -
  obtain s1 where r: "virtio_queue_return (ready_state (\<lambda>_. 0)) 0 2 16 = Inr s1"
    by (simp add: virtio_queue_return_def ring_index_def Let_def queue_ref_def scenario_defs)
  from isr_status_read_and_clear [OF r, of null_env "io_of 1 0" "io_of 1 0"] r
  show ?thesis by blast
qed

section \<open>Properties of the descriptor chain\<close>

text \<open>
  The test of the source, \<open>end < addr || end > mem_size\<close> on 64-bit words, holds
  exactly when \<open>addr + len\<close> as numbers exceeds the size.
\<close>

lemma bounds_check_iff:
  fixes a ms :: u64 and l :: u32
  shows "(a + ucast l < a \<or> a + ucast l > ms) \<longleftrightarrow> unat ms < unat a + unat l"
proof -
  have ms: "unat ms < 2 ^ 64" using unsigned_less [of ms, where ?'a = nat] by simp
  have la: "unat a < 2 ^ 64" using unsigned_less [of a, where ?'a = nat] by simp
  have ll: "unat l < 2 ^ 32" using unsigned_less [of l, where ?'a = nat] by simp
  then have "unat l < 2 ^ 64" by simp
  then have ul: "unat (ucast l :: u64) = unat l"
    by (simp add: unsigned_ucast_eq take_bit_nat_eq_self)
  show ?thesis
  proof (cases "unat a + unat l < 2 ^ 64")
    case True
    then have s: "unat (a + ucast l) = unat a + unat l"
      by (simp add: unat_word_ariths ul)
    show ?thesis by (simp add: word_less_nat_alt s)
  next
    case False
    then have s: "unat (a + ucast l) = unat a + unat l - 2 ^ 64"
      using la ll by (simp add: unat_word_ariths ul mod_if)
    have "a + ucast l < a" using False ll la by (simp add: word_less_nat_alt s)
    with False ms show ?thesis by simp
  qed
qed

lemma chain_step_bad:
  assumes "queue_ref s qi = Inr q" and "desc q \<noteq> 0"
    and "desc_out_of_bounds (mem s) (desc_at q i) mem_size"
  shows "chain_step h qi mem_addr mem_size i u c s = Return (Inr (MX_ERR_OUT_OF_RANGE, u, c, s))"
  using assms bounds_check_iff [of "desc_addr (mem s) (desc_at q i)" "desc_len (mem s) (desc_at q i)" mem_size]
  by (simp add: chain_step_def desc_out_of_bounds_def Let_def)

lemma chain_step_Next:
  assumes "chain_step h qi mem_addr mem_size i u c s = Next i' u' c' s'"
  shows "\<exists>q m'. queue_ref s qi = Inr q
           \<and> \<not> desc_out_of_bounds (mem s) (desc_at q i) mem_size
           \<and> h (mem_addr + desc_addr (mem s) (desc_at q i)) (desc_len (mem s) (desc_at q i))
                (desc_flags (mem s) (desc_at q i)) u c (mem s) = (MX_OK, u', c', m')
           \<and> desc_flags m' (desc_at q i) AND VRING_DESC_F_NEXT \<noteq> 0
           \<and> i' = desc_next m' (desc_at q i)
           \<and> s' = s\<lparr>mem := m', trace := trace s @
                 [HandlerCall (mem_addr + desc_addr (mem s) (desc_at q i))
                    (desc_len (mem s) (desc_at q i)) (desc_flags (mem s) (desc_at q i))]\<rparr>"
proof -
  obtain q where q: "queue_ref s qi = Inr q"
    using assms by (cases "queue_ref s qi") (simp_all add: chain_step_def)
  let ?d = "desc_at q i"
  have ok: "\<not> desc_out_of_bounds (mem s) ?d mem_size" and nz: "desc q \<noteq> 0"
    using assms q bounds_check_iff [of "desc_addr (mem s) ?d" "desc_len (mem s) ?d" mem_size]
    by (auto simp: chain_step_def desc_out_of_bounds_def Let_def split: if_splits)
  obtain st u1 c1 m' where
    h: "h (mem_addr + desc_addr (mem s) ?d) (desc_len (mem s) ?d) (desc_flags (mem s) ?d) u c (mem s)
          = (st, u1, c1, m')"
    by (metis prod_cases4)
  have chk: "\<not> (desc_addr (mem s) ?d + ucast (desc_len (mem s) ?d) < desc_addr (mem s) ?d
         \<or> desc_addr (mem s) ?d + ucast (desc_len (mem s) ?d) > mem_size)"
    using ok bounds_check_iff [of "desc_addr (mem s) ?d" "desc_len (mem s) ?d" mem_size]
    by (simp add: desc_out_of_bounds_def)
  from assms q nz chk h show ?thesis
    by (auto simp: chain_step_def Let_def ok split: if_splits)
qed

lemma chain_prefix_walk:
  "chain_prefix k h qi ma ms i u c s = Some (i', u', c', s') \<Longrightarrow>
   chain_walk (k + n) h qi ma ms i u c s = chain_walk n h qi ma ms i' u' c' s'"
proof (induction k arbitrary: i u c s)
  case 0
  then show ?case by simp
next
  case (Suc k)
  then show ?case
    by (cases "chain_step h qi ma ms i u c s") simp_all
qed

lemma chain_prefix_frame:
  "chain_prefix k h qi ma ms i u c s = Some (i', u', c', s') \<Longrightarrow>
   device s' = device s
   \<and> (\<exists>evs. trace s' = trace s @ evs \<and> length evs = k \<and> list_all is_handler_call evs)"
proof (induction k arbitrary: i u c s)
  case 0
  then show ?case by simp
next
  case (Suc k)
  show ?case
  proof (cases "chain_step h qi ma ms i u c s")
    case (Return r)
    with Suc.prems show ?thesis by simp
  next
    case (Next i1 u1 c1 s1)
    from chain_step_Next [OF Next] obtain ev where
      s1: "device s1 = device s" "trace s1 = trace s @ [ev]" "is_handler_call ev"
      by auto
    from Suc.prems Next have "chain_prefix k h qi ma ms i1 u1 c1 s1 = Some (i', u', c', s')"
      by simp
    from Suc.IH [OF this] obtain evs where
      "device s' = device s1" "trace s' = trace s1 @ evs" "length evs = k"
      "list_all is_handler_call evs" by auto
    with s1 have "device s' = device s \<and> trace s' = trace s @ (ev # evs)
        \<and> length (ev # evs) = Suc k \<and> list_all is_handler_call (ev # evs)" by simp
    then show ?thesis by blast
  qed
qed

text \<open>
  C7, as stated, fails: in the chain of \<open>chain_state\<close> descriptor 0 links to
  descriptor 1, which ends beyond guest memory, yet with a handler that fails on
  descriptor 0 the walk returns the handler's \<open>MX_ERR_INTERNAL\<close>, not the bounds
  error.
\<close>

theorem handler_error_before_bounds_counterexample:
  "desc_flags (mem chain_state) (desc_at ready_queue 0) AND VRING_DESC_F_NEXT \<noteq> 0
   \<and> desc_next (mem chain_state) (desc_at ready_queue 0) = 1
   \<and> desc_out_of_bounds (mem chain_state) (desc_at ready_queue 1)
        (guest_physmem_size (device chain_state))
   \<and> handler_status (virtio_queue_handler (Suc (Suc 0)) failing_handler chain_state 0 ())
        = Some (Inr MX_ERR_INTERNAL)"
  by (simp add: chain_state_def chain_mem_def scenario_defs mem_defs desc_out_of_bounds_def
        handler_status_def virtio_queue_handler_def virtio_queue_next_avail_def
        virtio_queue_next_avail_locked_def ring_avail_count_def ring_index_def queue_ref_def
        put_queue_def chain_step_def failing_handler_def VRING_DESC_F_NEXT_def Let_def)

text \<open>
  C7, amended. When \<open>virtio_queue_handler\<close> takes a head from the available ring and
  the walk reaches, after \<open>k\<close> descriptors that were in bounds, for which the handler
  returned \<open>MX_OK\<close> and which had the next flag, a descriptor whose \<open>addr + len\<close>
  overflows or exceeds the guest memory size, then with any fuel above \<open>k\<close> it
  returns \<open>MX_ERR_OUT_OF_RANGE\<close> in the very state in which it met that descriptor:
  the device is as it was when the head was taken, and the effects since then are
  \<open>k\<close> handler calls, none for that descriptor and no used-ring write.
\<close>

theorem handler_bounds_abort:
  assumes "queue_ref s qi = Inr q0" and "virtio_device q0 = Owning_device"
    and "virtio_queue_next_avail s qi = Inr (MX_OK, Some head, s1)"
    and "chain_prefix k handler qi (guest_physmem_addr (device s)) (guest_physmem_size (device s))
           head 0 ctx s1 = Some (i, u, c, s2)"
    and "queue_ref s2 qi = Inr q" and "desc q \<noteq> 0"
    and "desc_out_of_bounds (mem s2) (desc_at q i) (guest_physmem_size (device s))"
  shows "virtio_queue_handler (Suc (k + n)) handler s qi ctx
           = Some (Inr (MX_ERR_OUT_OF_RANGE, c, s2))
       \<and> device s2 = device s1
       \<and> (\<exists>evs. trace s2 = trace s1 @ evs \<and> length evs = k \<and> list_all is_handler_call evs)"
proof -
  let ?ma = "guest_physmem_addr (device s)" and ?ms = "guest_physmem_size (device s)"
  have "chain_walk (k + Suc n) handler qi ?ma ?ms head 0 ctx s1
          = chain_walk (Suc n) handler qi ?ma ?ms i u c s2"
    by (rule chain_prefix_walk [OF assms(4)])
  also have "\<dots> = Some (Inr (MX_ERR_OUT_OF_RANGE, u, c, s2))"
    by (simp add: chain_step_bad [OF assms(5,6,7)])
  finally have walk: "chain_walk (Suc (k + n)) handler qi ?ma ?ms head 0 ctx s1
      = Some (Inr (MX_ERR_OUT_OF_RANGE, u, c, s2))" by simp
  have "virtio_queue_handler (Suc (k + n)) handler s qi ctx
          = Some (Inr (MX_ERR_OUT_OF_RANGE, c, s2))"
    unfolding virtio_queue_handler_def
    by (simp only: assms(1,2,3) walk Let_def sum.case device_ptr.case prod.case option.case
          mx_status.distinct simp_thms if_True if_False)
  with chain_prefix_frame [OF assms(4)] show ?thesis by simp
qed

theorem handler_bounds_abort_witness:
  "virtio_queue_next_avail chain_state 0 = Inr (MX_OK, Some 0, taken_state)
   \<and> chain_prefix (Suc 0) ok_handler 0 0x10000000 0x100000 0 0 () taken_state
       = Some (1, 16, (), aborted_state)
   \<and> desc_out_of_bounds (mem aborted_state) (desc_at (ready_queue\<lparr>index := 1\<rparr>) 1) 0x100000
   \<and> virtio_queue_handler (Suc (Suc 0)) ok_handler chain_state 0 ()
       = Some (Inr (MX_ERR_OUT_OF_RANGE, (), aborted_state))
   \<and> trace aborted_state = trace taken_state @ [HandlerCall 0x10003000 16 1]"
proof -
  have dev: "guest_physmem_addr (device chain_state) = 0x10000000"
      "guest_physmem_size (device chain_state) = 0x100000"
    by (simp_all add: chain_state_def scenario_defs)
  have a: "queue_ref chain_state 0 = Inr ready_queue"
    by (simp add: chain_state_def queue_ref_def scenario_defs)
  have b: "virtio_device ready_queue = Owning_device" by (simp add: scenario_defs)
  have c: "virtio_queue_next_avail chain_state 0 = Inr (MX_OK, Some 0, taken_state)"
    by (simp add: taken_state_def chain_state_def chain_mem_def scenario_defs mem_defs
          virtio_queue_next_avail_def virtio_queue_next_avail_locked_def ring_avail_count_def
          ring_index_def queue_ref_def put_queue_def)
  have d: "chain_prefix (Suc 0) ok_handler 0 (guest_physmem_addr (device chain_state))
             (guest_physmem_size (device chain_state)) 0 0 () taken_state
           = Some (1, 16, (), aborted_state)"
    by (simp add: aborted_state_def taken_state_def chain_state_def chain_mem_def scenario_defs
          mem_defs queue_ref_def put_queue_def chain_step_def ok_handler_def
          VRING_DESC_F_NEXT_def Let_def)
  have e: "queue_ref aborted_state 0 = Inr (ready_queue\<lparr>index := 1\<rparr>)"
    by (simp add: aborted_state_def taken_state_def chain_state_def queue_ref_def put_queue_def
          scenario_defs)
  have f: "desc (ready_queue\<lparr>index := 1\<rparr>) \<noteq> 0" by (simp add: scenario_defs)
  have g: "desc_out_of_bounds (mem aborted_state) (desc_at (ready_queue\<lparr>index := 1\<rparr>) 1)
             (guest_physmem_size (device chain_state))"
    by (simp add: aborted_state_def taken_state_def chain_state_def chain_mem_def scenario_defs
          mem_defs put_queue_def desc_out_of_bounds_def)
  have t: "trace taken_state = []"
    by (simp add: taken_state_def chain_state_def put_queue_def ready_state_def)
  from handler_bounds_abort [OF a b c d e f g, of 0] c d g dev t
  show ?thesis by (simp add: aborted_state_def)
qed

text \<open>
  Where the handler returns an error for the descriptor the walk has reached, a
  descriptor in bounds, \<open>virtio_queue_handler\<close> returns that error for every fuel
  above the number of descriptors walked, with the handler's call as its last effect
  and no used-ring write.
\<close>

lemma chain_step_handler_fail:
  assumes "queue_ref s qi = Inr q" and "desc q \<noteq> 0"
    and "\<not> desc_out_of_bounds (mem s) (desc_at q i) mem_size"
    and "h (mem_addr + desc_addr (mem s) (desc_at q i)) (desc_len (mem s) (desc_at q i))
           (desc_flags (mem s) (desc_at q i)) u c (mem s) = (st, u', c', m')"
    and "st \<noteq> MX_OK"
  shows "chain_step h qi mem_addr mem_size i u c s =
           Return (Inr (st, u', c', s\<lparr>mem := m', trace := trace s @
             [HandlerCall (mem_addr + desc_addr (mem s) (desc_at q i))
                (desc_len (mem s) (desc_at q i)) (desc_flags (mem s) (desc_at q i))]\<rparr>))"
  using assms
    bounds_check_iff [of "desc_addr (mem s) (desc_at q i)" "desc_len (mem s) (desc_at q i)" mem_size]
  by (simp add: chain_step_def desc_out_of_bounds_def Let_def)

lemma handler_error_returned:
  assumes "queue_ref s qi = Inr q0" and "virtio_device q0 = Owning_device"
    and "virtio_queue_next_avail s qi = Inr (MX_OK, Some head, s1)"
    and "chain_prefix k handler qi (guest_physmem_addr (device s)) (guest_physmem_size (device s))
           head 0 ctx s1 = Some (i, u, c, s2)"
    and "queue_ref s2 qi = Inr q" and "desc q \<noteq> 0"
    and "\<not> desc_out_of_bounds (mem s2) (desc_at q i) (guest_physmem_size (device s))"
    and "handler (guest_physmem_addr (device s) + desc_addr (mem s2) (desc_at q i))
           (desc_len (mem s2) (desc_at q i)) (desc_flags (mem s2) (desc_at q i)) u c (mem s2)
           = (st, u', c', m')"
    and "st \<noteq> MX_OK"
  shows "virtio_queue_handler (Suc (k + n)) handler s qi ctx =
           Some (Inr (st, c', s2\<lparr>mem := m', trace := trace s2 @
             [HandlerCall (guest_physmem_addr (device s) + desc_addr (mem s2) (desc_at q i))
                (desc_len (mem s2) (desc_at q i)) (desc_flags (mem s2) (desc_at q i))]\<rparr>))"
proof -
  let ?ma = "guest_physmem_addr (device s)" and ?ms = "guest_physmem_size (device s)"
  let ?s3 = "s2\<lparr>mem := m', trace := trace s2 @
             [HandlerCall (?ma + desc_addr (mem s2) (desc_at q i))
                (desc_len (mem s2) (desc_at q i)) (desc_flags (mem s2) (desc_at q i))]\<rparr>"
  have "chain_walk (k + Suc n) handler qi ?ma ?ms head 0 ctx s1
          = chain_walk (Suc n) handler qi ?ma ?ms i u c s2"
    by (rule chain_prefix_walk [OF assms(4)])
  also have "\<dots> = Some (Inr (st, u', c', ?s3))"
    using chain_step_handler_fail [where h = handler and s = s2 and mem_addr = ?ma
        and mem_size = ?ms, OF assms(5,6,7,8,9)]
    by simp
  finally have walk: "chain_walk (Suc (k + n)) handler qi ?ma ?ms head 0 ctx s1
      = Some (Inr (st, u', c', ?s3))" by simp
  show ?thesis
    unfolding virtio_queue_handler_def
    by (simp only: assms(1,2,3,9) walk Let_def sum.case device_ptr.case prod.case option.case
          mx_status.distinct simp_thms if_True if_False)
qed

section \<open>Properties of \<open>QUEUE_NOTIFY\<close>\<close>





lemma queue_notify_no_callback:
  assumes "access_size io = 2" and "io_u16 io < num_queues (device s)"
    and "ops_queue_notify e = None" and "queue_ref s (unat (io_u16 io)) = Inr q"
  shows "virtio_pci_legacy_write e s 0 VIRTIO_PCI_QUEUE_NOTIFY io =
           Inr (MX_OK, s\<lparr>trace := trace s @
                  (if 0 < ring_avail_count (mem s) q then [CndSignal (unat (io_u16 io))] else [])\<rparr>)"
  using assms
  by (simp add: virtio_pci_legacy_write_def port_defs virtio_queue_signal_def not_le [symmetric])

lemma queue_notify_callback_error:
  assumes "access_size io = 2" and "io_u16 io < num_queues (device s)"
    and "ops_queue_notify e = Some cb"
    and "cb (s\<lparr>trace := trace s @ [QueueNotifyCall (io_u16 io)]\<rparr>) (io_u16 io) = (st, s1)"
    and "st \<noteq> MX_OK"
  shows "virtio_pci_legacy_write e s 0 VIRTIO_PCI_QUEUE_NOTIFY io = Inr (st, s1)"
  using assms
  by (simp add: virtio_pci_legacy_write_def port_defs not_le [symmetric])

end
